theory Spec2Isabelle
  imports Complex_Main "HOL-Library.Sublist" "HOL-Library.Word"
begin

section \<open>Python values\<close>

text \<open>
  Text is a Python \<^verbatim>\<open>str\<close>: a sequence of Unicode code points, each an integer between 0
  and 0x10FFFF. \<open>ascii\<close> turns a literal of ASCII characters into such a sequence.
\<close>

type_synonym pystr = "int list"

definition ascii :: "string \<Rightarrow> pystr" where
  "ascii s = map of_char s"

text \<open>
  The values that \<^verbatim>\<open>get_filters\<close> copies out of a stored document and that
  \<^verbatim>\<open>calculate_match_percentage\<close> compares: \<^verbatim>\<open>None\<close>, booleans, unbounded
  integers, text and lists of such values. BSON doubles, dates, binary data and embedded
  documents are not part of this value universe.
\<close>

datatype pyval =
    PNone
  | PBool bool
  | PInt int
  | PStr pystr
  | PList "pyval list"

text \<open>
  The exception classes that the modelled operations raise. All of them derive from
  \<^verbatim>\<open>Exception\<close>; \<open>PyMongoError\<close> stands for whatever the database driver raises.
\<close>

datatype pyexc = TypeError | ValueError | AttributeError | PyMongoError

text \<open>
  A dictionary of filters or a stored document. The keys that the code reads are the ASCII
  field names, kept as literals.
\<close>

type_synonym pydict = "string \<rightharpoonup> pyval"

text \<open>\<^verbatim>\<open>d.get(key, default)\<close>, \<^verbatim>\<open>d.get(key)\<close> and \<^verbatim>\<open>d.pop(key, None)\<close>.\<close>

definition dict_get :: "pydict \<Rightarrow> string \<Rightarrow> pyval \<Rightarrow> pyval" where
  "dict_get d k dflt = (case d k of None \<Rightarrow> dflt | Some v \<Rightarrow> v)"

definition dict_get_none :: "pydict \<Rightarrow> string \<Rightarrow> pyval" where
  "dict_get_none d k = dict_get d k PNone"

definition dict_pop :: "pydict \<Rightarrow> string \<Rightarrow> pydict" where
  "dict_pop d k = d(k := None)"

text \<open>
  \<^verbatim>\<open>a == b\<close>. A boolean equals the integer 0 or 1 it stands for; lists are equal when they
  have the same length and equal elements; values of unrelated types are unequal.
\<close>

definition int_of_bool :: "bool \<Rightarrow> int" where
  "int_of_bool b = (if b then 1 else 0)"

fun py_eq :: "pyval \<Rightarrow> pyval \<Rightarrow> bool" where
  "py_eq PNone PNone = True"
| "py_eq (PBool a) (PBool b) = (a = b)"
| "py_eq (PBool a) (PInt b) = (int_of_bool a = b)"
| "py_eq (PInt a) (PBool b) = (a = int_of_bool b)"
| "py_eq (PInt a) (PInt b) = (a = b)"
| "py_eq (PStr a) (PStr b) = (a = b)"
| "py_eq (PList xs) (PList ys) = list_all2 py_eq xs ys"
| "py_eq _ _ = False"

text \<open>
  \<^verbatim>\<open>a + b\<close>: numbers add, text and lists concatenate, every other combination raises
  \<^verbatim>\<open>TypeError\<close>.
\<close>

fun py_add :: "pyval \<Rightarrow> pyval \<Rightarrow> pyexc + pyval" where
  "py_add (PStr a) (PStr b) = Inr (PStr (a @ b))"
| "py_add (PList a) (PList b) = Inr (PList (a @ b))"
| "py_add (PInt a) (PInt b) = Inr (PInt (a + b))"
| "py_add (PInt a) (PBool b) = Inr (PInt (a + int_of_bool b))"
| "py_add (PBool a) (PInt b) = Inr (PInt (int_of_bool a + b))"
| "py_add (PBool a) (PBool b) = Inr (PInt (int_of_bool a + int_of_bool b))"
| "py_add _ _ = Inl TypeError"

text \<open>
  \<^verbatim>\<open>label in container\<close> for a text label: a substring test when the container is text,
  an element-wise \<^verbatim>\<open>==\<close> search when it is a list, \<^verbatim>\<open>TypeError\<close> otherwise.
\<close>

fun py_in :: "pystr \<Rightarrow> pyval \<Rightarrow> pyexc + bool" where
  "py_in label (PStr s) = Inr (sublist label s)"
| "py_in label (PList xs) = Inr (list_ex (py_eq (PStr label)) xs)"
| "py_in label _ = Inl TypeError"

subsection \<open>The built-in \<^verbatim>\<open>int\<close>\<close>

text \<open>
  \<^verbatim>\<open>int(text)\<close> and \<^verbatim>\<open>int(text, 16)\<close> as CPython 3.11 computes them, in two steps.

  First, text that is not pure ASCII is rewritten: a code point below 127 stays, a Unicode
  blank becomes a space, a Unicode decimal digit (the tables of Unicode 14.0: 66 runs of ten
  digits, listed by their zeros) becomes its ASCII digit, and anything else becomes a
  question mark, which no literal contains. Text that is pure ASCII is taken as it is.
\<close>

definition unicode_space :: "int \<Rightarrow> bool" where
  "unicode_space ch =
     (ch \<in> {0x85, 0xA0, 0x1680, 0x2028, 0x2029, 0x202F, 0x205F, 0x3000} \<or>
      (0x2000 \<le> ch \<and> ch \<le> 0x200A))"

definition decimal_zeros :: "int list" where
  "decimal_zeros =
     [0x30, 0x660, 0x6F0, 0x7C0, 0x966, 0x9E6, 0xA66, 0xAE6, 0xB66, 0xBE6, 0xC66, 0xCE6,
      0xD66, 0xDE6, 0xE50, 0xED0, 0xF20, 0x1040, 0x1090, 0x17E0, 0x1810, 0x1946, 0x19D0,
      0x1A80, 0x1A90, 0x1B50, 0x1BB0, 0x1C40, 0x1C50, 0xA620, 0xA8D0, 0xA900, 0xA9D0,
      0xA9F0, 0xAA50, 0xABF0, 0xFF10, 0x104A0, 0x10D30, 0x11066, 0x110F0, 0x11136,
      0x111D0, 0x112F0, 0x11450, 0x114D0, 0x11650, 0x116C0, 0x11730, 0x118E0, 0x11950,
      0x11C50, 0x11D50, 0x11DA0, 0x16A60, 0x16AC0, 0x16B50, 0x1D7CE, 0x1D7D8, 0x1D7E2,
      0x1D7EC, 0x1D7F6, 0x1E140, 0x1E2F0, 0x1E950, 0x1FBF0]"

definition decimal_of :: "int \<Rightarrow> int option" where
  "decimal_of ch =
     (case find (\<lambda>z. z \<le> ch \<and> ch < z + 10) decimal_zeros of
        None \<Rightarrow> None
      | Some z \<Rightarrow> Some (ch - z))"

definition to_ascii_char :: "int \<Rightarrow> int" where
  "to_ascii_char ch =
     (if ch < 127 then ch
      else if unicode_space ch then 32
      else (case decimal_of ch of Some d \<Rightarrow> 48 + d | None \<Rightarrow> 63))"

definition to_ascii :: "pystr \<Rightarrow> pystr" where
  "to_ascii s = (if list_all (\<lambda>ch. ch < 128) s then s else map to_ascii_char s)"

text \<open>
  Second, the ASCII text is read: blanks (tab to carriage return, and space) are dropped at
  both ends, one sign may lead, base 16 may carry a \<^verbatim>\<open>0x\<close> prefix, and single underscores
  may stand between digits. In base 10 a literal of more than 4300 digits is refused (the
  default of \<^verbatim>\<open>sys.int_max_str_digits\<close>); base 16 has no such limit.
\<close>

definition is_space :: "int \<Rightarrow> bool" where
  "is_space ch = ((9 \<le> ch \<and> ch \<le> 13) \<or> ch = 32)"

definition strip_space :: "pystr \<Rightarrow> pystr" where
  "strip_space s = rev (dropWhile is_space (rev (dropWhile is_space s)))"

definition digit_of :: "int \<Rightarrow> int option" where
  "digit_of ch =
     (if 48 \<le> ch \<and> ch \<le> 57 then Some (ch - 48)
      else if 97 \<le> ch \<and> ch \<le> 122 then Some (ch - 87)
      else if 65 \<le> ch \<and> ch \<le> 90 then Some (ch - 55)
      else None)"

definition underscore :: int where
  "underscore = 95"

text \<open>
  \<open>scan_digits base prev acc cs\<close>: \<open>prev\<close> tells whether the character just read was a
  digit, so that an underscore is accepted only between two digits.
\<close>

fun scan_digits :: "int \<Rightarrow> bool \<Rightarrow> int \<Rightarrow> pystr \<Rightarrow> int option" where
  "scan_digits base prev acc [] = (if prev then Some acc else None)"
| "scan_digits base prev acc (c # cs) =
     (if c = underscore then (if prev then scan_digits base False acc cs else None)
      else (case digit_of c of
              None \<Rightarrow> None
            | Some d \<Rightarrow> if d < base then scan_digits base True (acc * base + d) cs else None))"

definition drop_prefix16 :: "int \<Rightarrow> pystr \<Rightarrow> pystr" where
  "drop_prefix16 base s =
     (case s of
        c0 # c1 # rest \<Rightarrow>
          if base = 16 \<and> c0 = 48 \<and> (c1 = 120 \<or> c1 = 88)
          then (case rest of c2 # rest' \<Rightarrow> if c2 = underscore then rest' else rest | [] \<Rightarrow> rest)
          else s
      | _ \<Rightarrow> s)"

definition int_max_str_digits :: nat where
  "int_max_str_digits = 4300"

definition too_many_digits :: "int \<Rightarrow> pystr \<Rightarrow> bool" where
  "too_many_digits base s =
     (base = 10 \<and> int_max_str_digits < length (filter (\<lambda>c. c \<noteq> underscore) s))"

definition unsigned_literal :: "int \<Rightarrow> pystr \<Rightarrow> int option" where
  "unsigned_literal base s =
     (case s of
        [] \<Rightarrow> None
      | c # cs \<Rightarrow>
          if c = underscore then None
          else if too_many_digits base (drop_prefix16 base s) then None
          else scan_digits base False 0 (drop_prefix16 base s))"

definition int_literal :: "int \<Rightarrow> pystr \<Rightarrow> int option" where
  "int_literal base s =
     (case strip_space (to_ascii s) of
        [] \<Rightarrow> None
      | c # cs \<Rightarrow>
          if c = 43 then unsigned_literal base cs
          else if c = 45 then map_option uminus (unsigned_literal base cs)
          else unsigned_literal base (c # cs))"

text \<open>
  \<^verbatim>\<open>int(x)\<close>: an integer is returned as it is, a boolean as 0 or 1, text is parsed in base
  10 and raises \<^verbatim>\<open>ValueError\<close> when it is no literal; \<^verbatim>\<open>None\<close> and lists raise
  \<^verbatim>\<open>TypeError\<close>.
\<close>

fun py_int :: "pyval \<Rightarrow> pyexc + int" where
  "py_int (PInt i) = Inr i"
| "py_int (PBool b) = Inr (int_of_bool b)"
| "py_int (PStr s) = (case int_literal 10 s of None \<Rightarrow> Inl ValueError | Some i \<Rightarrow> Inr i)"
| "py_int PNone = Inl TypeError"
| "py_int (PList xs) = Inl TypeError"

section \<open>The compatibility scorer\<close>

text \<open>The field names and labels of \<^verbatim>\<open>src/app.py\<close>.\<close>

definition animais_estimacao :: string where
  "animais_estimacao = ''animais_estimacao''"

definition preferencia_genero :: string where
  "preferencia_genero = ''preferencia_genero''"

definition numero_maximo_pessoas :: string where
  "numero_maximo_pessoas = ''numero_maximo_pessoas''"

definition frequencia_fumo :: string where
  "frequencia_fumo = ''frequencia_fumo''"

definition frequencia_bebida :: string where
  "frequencia_bebida = ''frequencia_bebida''"

definition Alergia :: pystr where
  "Alergia = ascii ''Alergia''"

definition Gosto_muito :: pystr where
  "Gosto_muito = ascii ''Gosto muito''"

text \<open>
  The label \<^verbatim>\<open>'Nao tenho, mas amo'\<close>, whose second letter is an a with tilde, the code
  point 0xE3.
\<close>

definition Nao_tenho_mas_amo :: pystr where
  "Nao_tenho_mas_amo = ascii ''N'' @ [0xE3] @ ascii ''o tenho, mas amo''"

definition Tanto_faz :: pystr where
  "Tanto_faz = ascii ''Tanto faz''"

text \<open>
  The two dictionaries are mutated in place and the two counters are local variables; the
  scorer's state holds all four.
\<close>

record scorer_state =
  housing_filters :: pydict
  university_filters :: pydict
  total_filters :: nat
  matched_filters :: nat

definition initial_state :: "pydict \<Rightarrow> pydict \<Rightarrow> scorer_state" where
  "initial_state h u =
     \<lparr>housing_filters = h, university_filters = u, total_filters = 0, matched_filters = 0\<rparr>"

text \<open>
  The body of a special rule that fired: both counters go up by one and the field is
  popped from both dictionaries.
\<close>

definition count_and_pop :: "string \<Rightarrow> scorer_state \<Rightarrow> scorer_state" where
  "count_and_pop field s =
     s\<lparr>total_filters := total_filters s + 1,
       matched_filters := matched_filters s + 1,
       housing_filters := dict_pop (housing_filters s) field,
       university_filters := dict_pop (university_filters s) field\<rparr>"

text \<open>
  Lines 135 to 145.
  \<^verbatim>\<open>
  animals_intersection = housing_filters.get('animais_estimacao', [])
                         + university_filters.get('animais_estimacao', [])
  if 'Alergia' in animals_intersection:
      return 0.0
  elif 'Gosto muito' in animals_intersection or 'Nao tenho, mas amo' in animals_intersection:
      total_filters += 1; matched_filters += 1
      housing_filters.pop('animais_estimacao', None)
      university_filters.pop('animais_estimacao', None)
  \<close>
  \<open>Inl e\<close>: the exception \<open>e\<close> was raised; \<open>Inr None\<close>: the function returned 0.0;
  \<open>Inr (Some s')\<close>: execution goes on in state \<open>s'\<close>.
\<close>

definition animals_rule :: "scorer_state \<Rightarrow> pyexc + scorer_state option" where
  "animals_rule s =
     (case py_add (dict_get (housing_filters s) animais_estimacao (PList []))
                  (dict_get (university_filters s) animais_estimacao (PList [])) of
        Inl e \<Rightarrow> Inl e
      | Inr animals_intersection \<Rightarrow>
          (case py_in Alergia animals_intersection of
             Inl e \<Rightarrow> Inl e
           | Inr True \<Rightarrow> Inr None
           | Inr False \<Rightarrow>
               (case py_in Gosto_muito animals_intersection of
                  Inl e \<Rightarrow> Inl e
                | Inr True \<Rightarrow> Inr (Some (count_and_pop animais_estimacao s))
                | Inr False \<Rightarrow>
                    (case py_in Nao_tenho_mas_amo animals_intersection of
                       Inl e \<Rightarrow> Inl e
                     | Inr True \<Rightarrow> Inr (Some (count_and_pop animais_estimacao s))
                     | Inr False \<Rightarrow> Inr (Some s)))))"

text \<open>
  Lines 148 to 158.
  \<^verbatim>\<open>
  gender_intersection = [housing_filters.get('preferencia_genero', ''),
                         university_filters.get('preferencia_genero', '')]
  if 'Tanto faz' in gender_intersection:
      total_filters += 1; matched_filters += 1
      housing_filters.pop('preferencia_genero', None)
      university_filters.pop('preferencia_genero', None)
  \<close>
  Membership in a two-element list compares with \<^verbatim>\<open>==\<close> and cannot raise.
\<close>

definition gender_rule :: "scorer_state \<Rightarrow> scorer_state" where
  "gender_rule s =
     (let gender_intersection =
            [dict_get (housing_filters s) preferencia_genero (PStr []),
             dict_get (university_filters s) preferencia_genero (PStr [])]
      in if list_ex (py_eq (PStr Tanto_faz)) gender_intersection
         then count_and_pop preferencia_genero s
         else s)"

text \<open>
  Lines 161 to 172.
  \<^verbatim>\<open>
  try:
      housing_max = int(housing_filters.get('numero_maximo_pessoas', 0))
      university_max = int(university_filters.get('numero_maximo_pessoas', 0))
      if housing_max <= university_max:
          matched_filters += 1
  except ValueError as ve:
      logger.error(...)
  total_filters += 1
  housing_filters.pop('numero_maximo_pessoas', None)
  university_filters.pop('numero_maximo_pessoas', None)
  \<close>
  \<open>occupancy_compare\<close> is the \<^verbatim>\<open>try\<close> block: the number it adds to
  \<^verbatim>\<open>matched_filters\<close>, or the exception that leaves the block. The handler takes
  \<^verbatim>\<open>ValueError\<close> only; any other exception leaves the rule.
\<close>

definition occupancy_compare :: "scorer_state \<Rightarrow> pyexc + nat" where
  "occupancy_compare s =
     (case py_int (dict_get (housing_filters s) numero_maximo_pessoas (PInt 0)) of
        Inl e \<Rightarrow> Inl e
      | Inr housing_max \<Rightarrow>
          (case py_int (dict_get (university_filters s) numero_maximo_pessoas (PInt 0)) of
             Inl e \<Rightarrow> Inl e
           | Inr university_max \<Rightarrow> Inr (if housing_max \<le> university_max then 1 else 0)))"

definition occupancy_finish :: "nat \<Rightarrow> scorer_state \<Rightarrow> scorer_state" where
  "occupancy_finish gained s =
     s\<lparr>matched_filters := matched_filters s + gained,
       total_filters := total_filters s + 1,
       housing_filters := dict_pop (housing_filters s) numero_maximo_pessoas,
       university_filters := dict_pop (university_filters s) numero_maximo_pessoas\<rparr>"

definition occupancy_rule :: "scorer_state \<Rightarrow> pyexc + scorer_state" where
  "occupancy_rule s =
     (case occupancy_compare s of
        Inr gained \<Rightarrow> Inr (occupancy_finish gained s)
      | Inl ValueError \<Rightarrow> Inr (occupancy_finish 0 s)
      | Inl e \<Rightarrow> Inl e)"

text \<open>
  Lines 175 to 185.
  \<^verbatim>\<open>
  other_fields = ['preferencia_genero', 'frequencia_fumo', 'frequencia_bebida']
  for field in other_fields:
      if housing_filters.get(field) == university_filters.get(field):
          matched_filters += 1
      total_filters += 1
  \<close>
\<close>

definition other_fields :: "string list" where
  "other_fields = [preferencia_genero, frequencia_fumo, frequencia_bebida]"

definition compare_field :: "string \<Rightarrow> scorer_state \<Rightarrow> scorer_state" where
  "compare_field field s =
     (let s' = (if py_eq (dict_get_none (housing_filters s) field)
                         (dict_get_none (university_filters s) field)
                then s\<lparr>matched_filters := matched_filters s + 1\<rparr>
                else s)
      in s'\<lparr>total_filters := total_filters s' + 1\<rparr>)"

definition remaining_fields :: "scorer_state \<Rightarrow> scorer_state" where
  "remaining_fields s = fold compare_field other_fields s"

text \<open>
  Lines 188 to 195. The quotient is a Python float; the model keeps the exact rational
  \<open>matched / total * 100\<close> that the float approximates.
\<close>

definition match_percentage :: "scorer_state \<Rightarrow> rat" where
  "match_percentage s =
     (if total_filters s = 0 then 0
      else (of_nat (matched_filters s) / of_nat (total_filters s)) * 100)"

text \<open>
  The body of the outer \<^verbatim>\<open>try\<close>, with the state in which it ends: either it returns a
  percentage or an exception leaves it.
\<close>

datatype ending = Returns rat | Raises pyexc

definition scorer_body :: "pydict \<Rightarrow> pydict \<Rightarrow> ending \<times> scorer_state" where
  "scorer_body h u =
     (let s0 = initial_state h u in
      case animals_rule s0 of
        Inl e \<Rightarrow> (Raises e, s0)
      | Inr None \<Rightarrow> (Returns 0, s0)
      | Inr (Some s1) \<Rightarrow>
          (let s2 = gender_rule s1 in
           case occupancy_rule s2 of
             Inl e \<Rightarrow> (Raises e, s2)
           | Inr s3 \<Rightarrow>
               (let s4 = remaining_fields s3 in (Returns (match_percentage s4), s4))))"

text \<open>
  \<^verbatim>\<open>calculate_match_percentage\<close>, a call of which returns a number (\<open>Inr\<close>) or raises
  (\<open>Inl\<close>). Lines 196 to 198:
  \<^verbatim>\<open>
  except Exception as e:
      logger.error(...)
      return 0.0
  \<close>
  The handler takes every class that derives from \<^verbatim>\<open>Exception\<close>.
\<close>

definition calculate_match_percentage :: "pydict \<Rightarrow> pydict \<Rightarrow> pyexc + rat" where
  "calculate_match_percentage h u =
     (case fst (scorer_body h u) of
        Returns p \<Rightarrow> Inr p
      | Raises e \<Rightarrow> Inr 0)"

section \<open>The attribute normalizer\<close>

subsection \<open>The library class \<^verbatim>\<open>uuid.UUID\<close>\<close>

text \<open>
  A UUID object is its 128-bit integer. \<^verbatim>\<open>s.replace(p, '')\<close> removes the occurrences of
  a non-empty pattern from left to right, \<^verbatim>\<open>s.strip('{}')\<close> removes braces at both
  ends.
\<close>

fun remove_all :: "pystr \<Rightarrow> pystr \<Rightarrow> pystr" where
  "remove_all p [] = []"
| "remove_all p (c # cs) =
     (if p \<noteq> [] \<and> prefix p (c # cs) then remove_all p (drop (length p - 1) cs)
      else c # remove_all p cs)"

definition is_brace :: "int \<Rightarrow> bool" where
  "is_brace c = (c = 123 \<or> c = 125)"

definition strip_braces :: "pystr \<Rightarrow> pystr" where
  "strip_braces s = rev (dropWhile is_brace (rev (dropWhile is_brace s)))"

text \<open>
  \<^verbatim>\<open>uuid.UUID(hex)\<close> for text; \<open>None\<close> stands for the \<^verbatim>\<open>ValueError\<close> of a badly
  formed identifier.
  \<^verbatim>\<open>
  hex = hex.replace('urn:', '').replace('uuid:', '')
  hex = hex.strip('{}').replace('-', '')
  if len(hex) != 32: raise ValueError('badly formed hexadecimal UUID string')
  int = int_(hex, 16)
  \<close>
\<close>

definition UUID_hex :: "pystr \<Rightarrow> int option" where
  "UUID_hex s =
     (let hex = remove_all (ascii ''uuid:'') (remove_all (ascii ''urn:'') s);
          hex = remove_all (ascii ''-'') (strip_braces hex)
      in if length hex \<noteq> 32 then None else int_literal 16 hex)"

text \<open>
  \<^verbatim>\<open>uuid.UUID(x)\<close> for any value. \<^verbatim>\<open>None\<close> is the default of the parameter, so the
  constructor finds no argument given and raises \<^verbatim>\<open>TypeError\<close>; a number or a list has
  no method \<^verbatim>\<open>replace\<close>, which raises \<^verbatim>\<open>AttributeError\<close>.
\<close>

fun UUID :: "pyval \<Rightarrow> pyexc + int" where
  "UUID (PStr s) = (case UUID_hex s of None \<Rightarrow> Inl ValueError | Some n \<Rightarrow> Inr n)"
| "UUID PNone = Inl TypeError"
| "UUID (PBool b) = Inl AttributeError"
| "UUID (PInt i) = Inl AttributeError"
| "UUID (PList xs) = Inl AttributeError"

text \<open>
  \<^verbatim>\<open>uuid.UUID(bytes=b)\<close> raises \<^verbatim>\<open>ValueError\<close> unless there are 16 bytes and reads them
  big-endian.
\<close>

definition UUID_bytes :: "8 word list \<Rightarrow> pyexc + int" where
  "UUID_bytes b =
     (if length b \<noteq> 16 then Inl ValueError
      else Inr (foldl (\<lambda>acc x. acc * 256 + uint x) 0 b))"

text \<open>
  \<^verbatim>\<open>str(uuid_obj)\<close>: the 32 lower-case hexadecimal digits of the integer, grouped
  8-4-4-4-12.
\<close>

definition hex_char :: "int \<Rightarrow> int" where
  "hex_char d = ascii ''0123456789abcdef'' ! nat d"

definition hex32 :: "int \<Rightarrow> pystr" where
  "hex32 n = map (\<lambda>i. hex_char ((n div 16 ^ (31 - i)) mod 16)) [0..<32]"

definition str_UUID :: "int \<Rightarrow> pystr" where
  "str_UUID n =
     (let hex = hex32 n
      in take 8 hex @ ascii ''-'' @ take 4 (drop 8 hex) @ ascii ''-'' @
         take 4 (drop 12 hex) @ ascii ''-'' @ take 4 (drop 16 hex) @ ascii ''-'' @
         drop 20 hex)"

subsection \<open>The MongoDB collection\<close>

text \<open>
  A call of the driver either raises or gives its result. \<open>find_one\<close> is the query
  \<^verbatim>\<open>collection.find_one({'idUsuarioMoradia': Binary(uuid_obj.bytes, subtype=4)})\<close>, keyed
  by the UUID; a document that it returns holds at least the field it was found by, so
  \<^verbatim>\<open>not user\<close> is true for \<^verbatim>\<open>None\<close> only. \<open>find_moradia\<close> is the query
  \<^verbatim>\<open>collection.find({'tipo': 'moradia'}, {'idUsuarioMoradia': 1, '_id': 0})\<close>; its cursor
  hands out documents until it is exhausted or the connection breaks. Of each document only
  \<^verbatim>\<open>document.get('idUsuarioMoradia')\<close> is read: \<open>None\<close> when the field is missing,
  otherwise the bytes of the stored binary.
\<close>

datatype 'a driver = Fails | Gives 'a

datatype cursor = Exhausted | Broken | Document "8 word list option" cursor

record collection =
  find_one :: "int \<Rightarrow> pydict option driver"
  find_moradia :: "cursor driver"

subsection \<open>\<^verbatim>\<open>get_filters\<close>\<close>

definition fields_to_process :: "string list" where
  "fields_to_process =
     [animais_estimacao, preferencia_genero, numero_maximo_pessoas, frequencia_fumo,
      frequencia_bebida]"

text \<open>
  Lines 106 to 112.
  \<^verbatim>\<open>
  value = user.get(field)
  if isinstance(value, str):
      value = value.replace('[', '').replace(']', '')
  filters[field] = value
  \<close>
\<close>

definition clean_value :: "pyval \<Rightarrow> pyval" where
  "clean_value v =
     (case v of
        PStr s \<Rightarrow> PStr (filter (\<lambda>c. c \<noteq> 93) (filter (\<lambda>c. c \<noteq> 91) s))
      | _ \<Rightarrow> v)"

definition extract_field :: "pydict \<Rightarrow> string \<Rightarrow> pydict \<Rightarrow> pydict" where
  "extract_field user field filters = filters(field \<mapsto> clean_value (dict_get_none user field))"

text \<open>
  Lines 76 to 95. The first handler is \<^verbatim>\<open>except ValueError\<close>: a badly formed identifier
  gives the empty dictionary \<^verbatim>\<open>{}\<close>, any other exception of the constructor leaves
  \<^verbatim>\<open>get_filters\<close>. The second handler is \<^verbatim>\<open>except Exception\<close> around the query; a
  query that raises and a query that finds no user give \<^verbatim>\<open>{}\<close> as well.
\<close>

definition get_filters :: "collection \<Rightarrow> pyval \<Rightarrow> pyexc + pydict" where
  "get_filters coll uuid_str =
     (case UUID uuid_str of
        Inl ValueError \<Rightarrow> Inr Map.empty
      | Inl e \<Rightarrow> Inl e
      | Inr uuid_obj \<Rightarrow>
          (case find_one coll uuid_obj of
             Fails \<Rightarrow> Inr Map.empty
           | Gives None \<Rightarrow> Inr Map.empty
           | Gives (Some user) \<Rightarrow> Inr (fold (extract_field user) fields_to_process Map.empty)))"

section \<open>The candidate ranker\<close>

text \<open>
  Lines 217 to 231: the loop of \<^verbatim>\<open>get_all_houses\<close> over the cursor. A document whose
  identifier is missing or empty is passed over. The handler inside the loop is
  \<^verbatim>\<open>except (ValueError, TypeError)\<close>: an identifier that is not 16 bytes long is logged
  and passed over. A cursor that breaks raises out of the loop.
\<close>

fun collect_uuids :: "cursor \<Rightarrow> pystr list \<Rightarrow> pyexc + pystr list" where
  "collect_uuids Exhausted uuid_list = Inr uuid_list"
| "collect_uuids Broken uuid_list = Inl PyMongoError"
| "collect_uuids (Document binary_uuid rest) uuid_list =
     (case binary_uuid of
        None \<Rightarrow> collect_uuids rest uuid_list
      | Some b \<Rightarrow>
          if b = [] then collect_uuids rest uuid_list
          else (case UUID_bytes b of
                  Inl ValueError \<Rightarrow> collect_uuids rest uuid_list
                | Inl TypeError \<Rightarrow> collect_uuids rest uuid_list
                | Inl e \<Rightarrow> Inl e
                | Inr uuid_obj \<Rightarrow> collect_uuids rest (uuid_list @ [str_UUID uuid_obj])))"

text \<open>
  Lines 212 to 235: \<^verbatim>\<open>except Exception\<close> around the query and the loop; every exception
  ends in the empty list.
\<close>

definition get_all_houses :: "collection \<Rightarrow> pyexc + pystr list" where
  "get_all_houses coll =
     (case find_moradia coll of
        Fails \<Rightarrow> Inr []
      | Gives cursor \<Rightarrow>
          (case collect_uuids cursor [] of
             Inl e \<Rightarrow> Inr []
           | Inr uuid_list \<Rightarrow> Inr uuid_list))"

text \<open>
  The store may change while a ranking runs: \<open>db t\<close> is the collection as the database
  call number \<open>t\<close> of the run sees it. Call 0 lists the houses; after it every house costs
  two calls, one for its own filters and one for the university student's.
\<close>

record house =
  uid :: pystr
  probability :: rat

text \<open>
  Lines 257 to 266, the loop of \<^verbatim>\<open>get_all_probas\<close>. An exception raised by one of the
  three calls leaves the loop, and the list built so far is lost with it.
\<close>

fun score_houses ::
  "(nat \<Rightarrow> collection) \<Rightarrow> pyval \<Rightarrow> nat \<Rightarrow> pystr list \<Rightarrow> pyexc + house list" where
  "score_houses db university_uuid t [] = Inr []"
| "score_houses db university_uuid t (house_uuid # houses) =
     (case get_filters (db t) (PStr house_uuid) of
        Inl e \<Rightarrow> Inl e
      | Inr housing \<Rightarrow>
          (case get_filters (db (t + 1)) university_uuid of
             Inl e \<Rightarrow> Inl e
           | Inr university \<Rightarrow>
               (case calculate_match_percentage housing university of
                  Inl e \<Rightarrow> Inl e
                | Inr score \<Rightarrow>
                    (case score_houses db university_uuid (t + 2) houses of
                       Inl e \<Rightarrow> Inl e
                     | Inr houses_to_return \<Rightarrow>
                         Inr (\<lparr>uid = house_uuid, probability = score\<rparr> # houses_to_return)))))"

text \<open>
  Lines 254 to 271, the body of the \<^verbatim>\<open>try\<close> of \<^verbatim>\<open>get_all_probas\<close>. No sorting takes
  place between the loop and the \<^verbatim>\<open>return\<close>.
\<close>

definition ranking_body :: "(nat \<Rightarrow> collection) \<Rightarrow> pyval \<Rightarrow> pyexc + house list" where
  "ranking_body db university_uuid =
     (case get_all_houses (db 0) of
        Inl e \<Rightarrow> Inl e
      | Inr houses \<Rightarrow> score_houses db university_uuid 1 houses)"

text \<open>
  \<^verbatim>\<open>get_all_probas\<close>. Lines 273 to 275:
  \<^verbatim>\<open>
  except Exception as e:
      logger.error(...)
      return []
  \<close>
\<close>

definition get_all_probas :: "(nat \<Rightarrow> collection) \<Rightarrow> pyval \<Rightarrow> pyexc + house list" where
  "get_all_probas db university_uuid =
     (case ranking_body db university_uuid of
        Inl e \<Rightarrow> Inr []
      | Inr houses_to_return \<Rightarrow> Inr houses_to_return)"

section \<open>Example data\<close>

text \<open>
  The pair of the specification's worked example, with the labels of the code where the code
  has one: "Love it" is \<^verbatim>\<open>'Gosto muito'\<close> and "No preference" is \<^verbatim>\<open>'Tanto faz'\<close>.
\<close>

definition example_candidate :: pydict where
  "example_candidate =
     [animais_estimacao \<mapsto> PStr Gosto_muito,
      preferencia_genero \<mapsto> PStr (ascii ''Women only''),
      numero_maximo_pessoas \<mapsto> PInt 2,
      frequencia_fumo \<mapsto> PStr (ascii ''Never''),
      frequencia_bebida \<mapsto> PStr (ascii ''Never'')]"

definition example_seeker :: pydict where
  "example_seeker =
     [animais_estimacao \<mapsto> PStr Tanto_faz,
      preferencia_genero \<mapsto> PStr Tanto_faz,
      numero_maximo_pessoas \<mapsto> PInt 3,
      frequencia_fumo \<mapsto> PStr (ascii ''Never''),
      frequencia_bebida \<mapsto> PStr (ascii ''Occasionally'')]"

text \<open>Filters as \<^verbatim>\<open>get_filters\<close> returns them for stored users.\<close>

definition plain_student :: pydict where
  "plain_student =
     [animais_estimacao \<mapsto> PStr (ascii ''Gatos''),
      preferencia_genero \<mapsto> PStr (ascii ''Feminino''),
      numero_maximo_pessoas \<mapsto> PInt 3,
      frequencia_fumo \<mapsto> PStr (ascii ''Nunca''),
      frequencia_bebida \<mapsto> PStr (ascii ''Nunca'')]"

definition social_student :: pydict where
  "social_student =
     [animais_estimacao \<mapsto> PStr Gosto_muito,
      preferencia_genero \<mapsto> PStr (ascii ''Feminino''),
      numero_maximo_pessoas \<mapsto> PInt 3,
      frequencia_fumo \<mapsto> PStr (ascii ''Nunca''),
      frequencia_bebida \<mapsto> PStr (ascii ''Socialmente'')]"

definition allergic_house :: pydict where
  "allergic_house =
     [animais_estimacao \<mapsto> PStr (ascii ''Alergia, Gatos''),
      preferencia_genero \<mapsto> PStr (ascii ''Feminino''),
      numero_maximo_pessoas \<mapsto> PInt 2,
      frequencia_fumo \<mapsto> PStr (ascii ''Nunca''),
      frequencia_bebida \<mapsto> PStr (ascii ''Nunca'')]"

definition easygoing_house :: pydict where
  "easygoing_house =
     [animais_estimacao \<mapsto> PStr (ascii ''Gatos''),
      preferencia_genero \<mapsto> PStr Tanto_faz,
      numero_maximo_pessoas \<mapsto> PInt 2,
      frequencia_fumo \<mapsto> PStr (ascii ''Nunca''),
      frequencia_bebida \<mapsto> PStr (ascii ''Socialmente'')]"

definition unparsable_house :: pydict where
  "unparsable_house =
     [animais_estimacao \<mapsto> PStr (ascii ''Gatos''),
      preferencia_genero \<mapsto> PStr (ascii ''Feminino''),
      numero_maximo_pessoas \<mapsto> PStr (ascii ''duas''),
      frequencia_fumo \<mapsto> PStr (ascii ''Nunca''),
      frequencia_bebida \<mapsto> PStr (ascii ''Nunca'')]"

text \<open>A stored user without the field \<^verbatim>\<open>numero_maximo_pessoas\<close>: \<^verbatim>\<open>user.get\<close> gives \<^verbatim>\<open>None\<close>.\<close>

definition unlimited_house :: pydict where
  "unlimited_house =
     [animais_estimacao \<mapsto> PStr (ascii ''Gatos''),
      preferencia_genero \<mapsto> PStr (ascii ''Feminino''),
      numero_maximo_pessoas \<mapsto> PNone,
      frequencia_fumo \<mapsto> PStr (ascii ''Nunca''),
      frequencia_bebida \<mapsto> PStr (ascii ''Nunca'')]"

text \<open>
  Two users whose pet values spell the label only when written one after the other, equal in
  every other field.
\<close>

definition house_ending_Al :: pydict where
  "house_ending_Al =
     [animais_estimacao \<mapsto> PStr (ascii ''Gatos, Al''),
      preferencia_genero \<mapsto> PStr (ascii ''Feminino''),
      numero_maximo_pessoas \<mapsto> PInt 2,
      frequencia_fumo \<mapsto> PStr (ascii ''Nunca''),
      frequencia_bebida \<mapsto> PStr (ascii ''Nunca'')]"

definition student_beginning_ergia :: pydict where
  "student_beginning_ergia =
     [animais_estimacao \<mapsto> PStr (ascii ''ergia nenhuma''),
      preferencia_genero \<mapsto> PStr (ascii ''Feminino''),
      numero_maximo_pessoas \<mapsto> PInt 2,
      frequencia_fumo \<mapsto> PStr (ascii ''Nunca''),
      frequencia_bebida \<mapsto> PStr (ascii ''Nunca'')]"

text \<open>A value that is not the label but has it inside.\<close>

definition house_without_allergy :: pydict where
  "house_without_allergy =
     [animais_estimacao \<mapsto> PStr (ascii ''Sem Alergia''),
      preferencia_genero \<mapsto> PStr (ascii ''Feminino''),
      numero_maximo_pessoas \<mapsto> PInt 2,
      frequencia_fumo \<mapsto> PStr (ascii ''Nunca''),
      frequencia_bebida \<mapsto> PStr (ascii ''Nunca'')]"

text \<open>
  A collection with two houses and one student. The cursor also hands out a document
  without identifier and one whose identifier has three bytes.
\<close>

definition lively_house_doc :: pydict where
  "lively_house_doc =
     [animais_estimacao \<mapsto> PStr (ascii ''[Gatos]''),
      preferencia_genero \<mapsto> PStr (ascii ''Feminino''),
      numero_maximo_pessoas \<mapsto> PStr (ascii ''2''),
      frequencia_fumo \<mapsto> PStr (ascii ''Nunca''),
      frequencia_bebida \<mapsto> PStr (ascii ''Socialmente''),
      ''tipo'' \<mapsto> PStr (ascii ''moradia'')]"

definition quiet_house_doc :: pydict where
  "quiet_house_doc =
     [animais_estimacao \<mapsto> PStr (ascii ''Gatos''),
      preferencia_genero \<mapsto> PStr (ascii ''Feminino''),
      numero_maximo_pessoas \<mapsto> PStr (ascii ''2''),
      frequencia_fumo \<mapsto> PStr (ascii ''Nunca''),
      frequencia_bebida \<mapsto> PStr (ascii ''Nunca''),
      ''tipo'' \<mapsto> PStr (ascii ''moradia'')]"

definition student_doc :: pydict where
  "student_doc =
     [animais_estimacao \<mapsto> PStr (ascii ''[Gatos]''),
      preferencia_genero \<mapsto> PStr (ascii ''Feminino''),
      numero_maximo_pessoas \<mapsto> PStr (ascii ''3''),
      frequencia_fumo \<mapsto> PStr (ascii ''Nunca''),
      frequencia_bebida \<mapsto> PStr (ascii ''Nunca'')]"

definition example_cursor :: cursor where
  "example_cursor =
     Document (Some (replicate 15 0 @ [1]))
       (Document None
         (Document (Some [1, 2, 3])
           (Document (Some (replicate 15 0 @ [2])) Exhausted)))"

definition example_collection :: collection where
  "example_collection =
     \<lparr>find_one = (\<lambda>k. if k = 1 then Gives (Some lively_house_doc)
                       else if k = 2 then Gives (Some quiet_house_doc)
                       else if k = 255 then Gives (Some student_doc)
                       else Gives None),
      find_moradia = Gives example_cursor\<rparr>"

definition student_uuid :: pystr where
  "student_uuid = ascii ''00000000-0000-0000-0000-0000000000ff''"



text \<open>A collection whose connection breaks after the first house.\<close>

definition broken_cursor :: cursor where
  "broken_cursor = Document (Some (replicate 15 0 @ [1])) Broken"

definition broken_collection :: collection where
  "broken_collection = \<lparr>find_one = (\<lambda>k. Fails), find_moradia = Gives broken_cursor\<rparr>"

section \<open>Auxiliary notions\<close>

text \<open>The invariant of the two counters.\<close>

definition counted :: "scorer_state \<Rightarrow> bool" where
  "counted s = (matched_filters s \<le> total_filters s)"

text \<open>The state with the two dictionaries exchanged.\<close>

definition swap_roles :: "scorer_state \<Rightarrow> scorer_state" where
  "swap_roles s =
     s\<lparr>housing_filters := university_filters s, university_filters := housing_filters s\<rparr>"

text \<open>A cursor that raises before it is exhausted.\<close>

fun breaks :: "cursor \<Rightarrow> bool" where
  "breaks Exhausted = False"
| "breaks Broken = True"
| "breaks (Document binary_uuid rest) = breaks rest"

text \<open>The two kinds of value that \<^verbatim>\<open>label in a + b\<close> is defined on.\<close>

fun both_text_or_lists :: "pyval \<Rightarrow> pyval \<Rightarrow> bool" where
  "both_text_or_lists (PStr a) (PStr b) = True"
| "both_text_or_lists (PList a) (PList b) = True"
| "both_text_or_lists _ _ = False"

text \<open>
  The two values that the pet rule adds up, \<^verbatim>\<open>filters.get('animais_estimacao', [])\<close>, and
  the value that the occupancy rule converts, \<^verbatim>\<open>filters.get('numero_maximo_pessoas', 0)\<close>.
\<close>

abbreviation (input) pets :: "pydict \<Rightarrow> pyval" where
  "pets d \<equiv> dict_get d animais_estimacao (PList [])"

abbreviation (input) occupants :: "pydict \<Rightarrow> pyval" where
  "occupants d \<equiv> dict_get d numero_maximo_pessoas (PInt 0)"

section \<open>Unfolding rules for evaluation\<close>

lemmas field_names = animais_estimacao_def preferencia_genero_def numero_maximo_pessoas_def
  frequencia_fumo_def frequencia_bebida_def

lemmas labels = Alergia_def Gosto_muito_def Nao_tenho_mas_amo_def Tanto_faz_def ascii_def

lemmas scorer_steps = calculate_match_percentage_def scorer_body_def initial_state_def
  animals_rule_def gender_rule_def occupancy_rule_def occupancy_compare_def occupancy_finish_def
  remaining_fields_def other_fields_def compare_field_def match_percentage_def count_and_pop_def
  dict_get_def dict_get_none_def dict_pop_def

section \<open>The built-in conversions on some inputs\<close>

lemma py_int_examples:
  "py_int (PStr (ascii ''duas'')) = Inl ValueError"
  "py_int (PStr (ascii '' +1_000 '')) = Inr 1000"
  "py_int (PStr (ascii ''1__0'')) = Inl ValueError"
  "py_int (PStr [0x663]) = Inr 3"
  "py_int (PStr (0xA0 # ascii ''2'')) = Inr 2"
  "py_int (PStr (0x1C # ascii ''2'')) = Inl ValueError"
  by code_simp+

lemma UUID_hex_examples:
  "UUID_hex (ascii ''592f7f4a-ebd2-4b3a-7e46-7e1af20de594'')
     = Some 0x592f7f4aebd24b3a7e467e1af20de594"
  "UUID_hex (ascii ''urn:uuid:{00000000-0000-0000-0000-0000000000FF}'') = Some 255"
  "UUID_hex (replicate 32 0xFF10) = Some 0"
  "UUID_hex (0x1C # replicate 29 48 @ ascii ''ff'') = None"
  "str_UUID 0x592f7f4aebd24b3a7e467e1af20de594 = ascii ''592f7f4a-ebd2-4b3a-7e46-7e1af20de594''"
  by code_simp+

section \<open>Properties of the values\<close>

lemma py_eq_sym: "py_eq a b = py_eq b a"
proof (induction a b rule: py_eq.induct)
  case (7 xs ys)
  have "list_all2 py_eq xs ys = list_all2 py_eq ys xs"
    unfolding list_all2_conv_all_nth using 7 by (metis nth_mem)
  then show ?case by simp
qed auto

lemma sublist_either_append: "sublist l a \<or> sublist l b \<Longrightarrow> sublist l (a @ b)"
  by (auto intro: sublist_appendI sublist_order.order_trans)

lemma py_in_survives_add:
  assumes "py_in l v = Inr True"
  shows "py_add v w = Inl TypeError \<or> (\<exists>x. py_add v w = Inr x \<and> py_in l x = Inr True)"
    and "py_add w v = Inl TypeError \<or> (\<exists>x. py_add w v = Inr x \<and> py_in l x = Inr True)"
  using assms by (cases v; cases w; auto intro: sublist_either_append)+

lemma py_int_raises: "py_int v = Inl e \<Longrightarrow> e = TypeError \<or> e = ValueError"
  by (cases v) (auto split: option.splits)

section \<open>The pet veto\<close>

lemma animals_rule_veto:
  assumes "py_in Alergia v = Inr True"
    and "housing_filters s animais_estimacao = Some v \<or>
         university_filters s animais_estimacao = Some v"
  shows "animals_rule s = Inr None \<or> animals_rule s = Inl TypeError"
proof -
  let ?a = "dict_get (housing_filters s) animais_estimacao (PList [])"
  let ?b = "dict_get (university_filters s) animais_estimacao (PList [])"
  from assms(2) have "?a = v \<or> ?b = v"
    by (auto simp: dict_get_def)
  then have "py_add ?a ?b = Inl TypeError \<or>
             (\<exists>x. py_add ?a ?b = Inr x \<and> py_in Alergia x = Inr True)"
    using py_in_survives_add[OF assms(1)] by metis
  then show ?thesis
    by (auto simp: animals_rule_def)
qed

text \<open>
  Claim C1. Whenever \<^verbatim>\<open>'Alergia' in value\<close> holds of the pet value of the housing user or
  of the university student, the scorer returns 0 whatever the other fields are, and it ends
  in the state it started in: nothing was counted and nothing was popped, so no later rule
  ran.
\<close>

theorem alergia_veto:
  assumes "py_in Alergia v = Inr True"
    and "h animais_estimacao = Some v \<or> u animais_estimacao = Some v"
  shows "calculate_match_percentage h u = Inr 0 \<and> snd (scorer_body h u) = initial_state h u"
proof -
  have "animals_rule (initial_state h u) = Inr None \<or>
        animals_rule (initial_state h u) = Inl TypeError"
    using animals_rule_veto[OF assms(1), of "initial_state h u"] assms(2)
    by (simp add: initial_state_def)
  then show ?thesis
    by (auto simp: calculate_match_percentage_def scorer_body_def)
qed

theorem alergia_veto_witness:
  "py_in Alergia (PStr (ascii ''Alergia, Gatos'')) = Inr True \<and>
   allergic_house animais_estimacao = Some (PStr (ascii ''Alergia, Gatos'')) \<and>
   calculate_match_percentage allergic_house plain_student = Inr 0 \<and>
   snd (scorer_body allergic_house plain_student) = initial_state allergic_house plain_student"
proof -
  have a: "py_in Alergia (PStr (ascii ''Alergia, Gatos'')) = Inr True"
    by (simp add: labels sublist_Cons_right)
  have b: "allergic_house animais_estimacao = Some (PStr (ascii ''Alergia, Gatos''))"
    by (simp add: allergic_house_def field_names)
  show ?thesis
    using alergia_veto[of "PStr (ascii ''Alergia, Gatos'')" allergic_house plain_student] a b
    by simp
qed

section \<open>The pet rules look into the concatenation\<close>

lemma count_and_pop_changes: "count_and_pop f s \<noteq> s"
proof
  assume "count_and_pop f s = s"
  then have "total_filters (count_and_pop f s) = total_filters s"
    by simp
  then show False
    by (simp add: count_and_pop_def)
qed

lemma animals_rule_text:
  assumes "housing_filters s animais_estimacao = Some (PStr x)"
    and "university_filters s animais_estimacao = Some (PStr y)"
  shows "animals_rule s =
     (if sublist Alergia (x @ y) then Inr None
      else if sublist Gosto_muito (x @ y) \<or> sublist Nao_tenho_mas_amo (x @ y)
           then Inr (Some (count_and_pop animais_estimacao s))
           else Inr (Some s))"
  using assms by (auto simp: animals_rule_def dict_get_def split: bool.splits)

text \<open>
  Claim C10. When both pet values are text, the pet rules test the concatenation of the
  housing value and the university value: the veto fires exactly when \<^verbatim>\<open>'Alergia'\<close> is a
  substring of it, and then the score is 0; the override fires exactly when the veto does
  not and one of the other two labels is a substring of it. So the veto fires on the pair
  \<^verbatim>\<open>'Gatos, Al'\<close>, \<^verbatim>\<open>'ergia nenhuma'\<close>, neither of which contains the label, and on
  \<^verbatim>\<open>'Sem Alergia'\<close>, which is not the label but has it inside.
\<close>

theorem pet_rules_test_concatenation:
  "(h animais_estimacao = Some (PStr x) \<and> u animais_estimacao = Some (PStr y) \<longrightarrow>
      ((animals_rule (initial_state h u) = Inr None) \<longleftrightarrow> sublist Alergia (x @ y)) \<and>
      ((animals_rule (initial_state h u)
          = Inr (Some (count_and_pop animais_estimacao (initial_state h u)))) \<longleftrightarrow>
         \<not> sublist Alergia (x @ y) \<and>
         (sublist Gosto_muito (x @ y) \<or> sublist Nao_tenho_mas_amo (x @ y))) \<and>
      (sublist Alergia (x @ y) \<longrightarrow> calculate_match_percentage h u = Inr 0)) \<and>
   ascii ''Gatos, Al'' \<noteq> Alergia \<and> ascii ''ergia nenhuma'' \<noteq> Alergia \<and>
   \<not> sublist Alergia (ascii ''Gatos, Al'') \<and> \<not> sublist Alergia (ascii ''ergia nenhuma'') \<and>
   animals_rule (initial_state house_ending_Al student_beginning_ergia) = Inr None \<and>
   calculate_match_percentage house_ending_Al student_beginning_ergia = Inr 0 \<and>
   ascii ''Sem Alergia'' \<noteq> Alergia \<and>
   animals_rule (initial_state house_without_allergy plain_student) = Inr None \<and>
   calculate_match_percentage house_without_allergy plain_student = Inr 0"
proof -
  have general: "((animals_rule (initial_state h u) = Inr None) \<longleftrightarrow> sublist Alergia (x @ y)) \<and>
      ((animals_rule (initial_state h u)
          = Inr (Some (count_and_pop animais_estimacao (initial_state h u)))) \<longleftrightarrow>
         \<not> sublist Alergia (x @ y) \<and>
         (sublist Gosto_muito (x @ y) \<or> sublist Nao_tenho_mas_amo (x @ y))) \<and>
      (sublist Alergia (x @ y) \<longrightarrow> calculate_match_percentage h u = Inr 0)"
    if hx: "h animais_estimacao = Some (PStr x)" and uy: "u animais_estimacao = Some (PStr y)"
  proof -
    have rule: "animals_rule (initial_state h u) =
       (if sublist Alergia (x @ y) then Inr None
        else if sublist Gosto_muito (x @ y) \<or> sublist Nao_tenho_mas_amo (x @ y)
             then Inr (Some (count_and_pop animais_estimacao (initial_state h u)))
             else Inr (Some (initial_state h u)))"
      using hx uy by (intro animals_rule_text) (simp_all add: initial_state_def)
    have neq: "initial_state h u \<noteq> count_and_pop animais_estimacao (initial_state h u)"
      using count_and_pop_changes[of animais_estimacao "initial_state h u"] by auto
    have zero: "calculate_match_percentage h u = Inr 0" if "sublist Alergia (x @ y)"
      using that rule by (simp add: calculate_match_percentage_def scorer_body_def)
    show ?thesis
      using rule neq zero by auto
  qed
  have instances:
    "ascii ''Gatos, Al'' \<noteq> Alergia" "ascii ''ergia nenhuma'' \<noteq> Alergia"
    "\<not> sublist Alergia (ascii ''Gatos, Al'')" "\<not> sublist Alergia (ascii ''ergia nenhuma'')"
    "animals_rule (initial_state house_ending_Al student_beginning_ergia) = Inr None"
    "calculate_match_percentage house_ending_Al student_beginning_ergia = Inr 0"
    "ascii ''Sem Alergia'' \<noteq> Alergia"
    "animals_rule (initial_state house_without_allergy plain_student) = Inr None"
    "calculate_match_percentage house_without_allergy plain_student = Inr 0"
    by (simp_all add: house_ending_Al_def student_beginning_ergia_def house_without_allergy_def
        plain_student_def scorer_steps field_names labels sublist_Cons_right)
  show ?thesis
    using general instances by blast
qed

theorem pet_rules_test_concatenation_witness:
  "house_ending_Al animais_estimacao = Some (PStr (ascii ''Gatos, Al'')) \<and>
   student_beginning_ergia animais_estimacao = Some (PStr (ascii ''ergia nenhuma'')) \<and>
   sublist Alergia (ascii ''Gatos, Al'' @ ascii ''ergia nenhuma'') \<and>
   \<not> sublist Alergia (ascii ''ergia nenhuma'' @ ascii ''Gatos, Al'') \<and>
   animals_rule (initial_state house_ending_Al student_beginning_ergia) = Inr None \<and>
   calculate_match_percentage house_ending_Al student_beginning_ergia = Inr 0 \<and>
   animals_rule (initial_state student_beginning_ergia house_ending_Al) \<noteq> Inr None"
proof -
  have a: "house_ending_Al animais_estimacao = Some (PStr (ascii ''Gatos, Al''))"
    by (simp add: house_ending_Al_def field_names)
  have b: "student_beginning_ergia animais_estimacao = Some (PStr (ascii ''ergia nenhuma''))"
    by (simp add: student_beginning_ergia_def field_names)
  have c: "sublist Alergia (ascii ''Gatos, Al'' @ ascii ''ergia nenhuma'')"
    "\<not> sublist Alergia (ascii ''ergia nenhuma'' @ ascii ''Gatos, Al'')"
    by (simp_all add: labels sublist_Cons_right)
  show ?thesis
    using a b c
      pet_rules_test_concatenation[of house_ending_Al "ascii ''Gatos, Al''"
        student_beginning_ergia "ascii ''ergia nenhuma''"]
      pet_rules_test_concatenation[of student_beginning_ergia "ascii ''ergia nenhuma''"
        house_ending_Al "ascii ''Gatos, Al''"]
    by simp
qed

section \<open>The worked example and the gender wildcard\<close>

text \<open>
  Claim C2. On the example pair the scorer ends with \<^verbatim>\<open>total_filters = 6\<close> and
  \<^verbatim>\<open>matched_filters = 5\<close> and returns 5 / 6 * 100, not 5, 4 and 80: after the wildcard
  has counted the gender preference, the loop over \<^verbatim>\<open>other_fields\<close> counts it again.
\<close>

theorem example_pair_five_of_six:
  "calculate_match_percentage example_candidate example_seeker = Inr (250 / 3) \<and>
   total_filters (snd (scorer_body example_candidate example_seeker)) = 6 \<and>
   matched_filters (snd (scorer_body example_candidate example_seeker)) = 5"
  by (simp add: example_candidate_def example_seeker_def scorer_steps field_names labels
      sublist_Cons_right)

text \<open>
  Claim C3. A housing user with \<^verbatim>\<open>'Tanto faz'\<close>: the wildcard counts the gender preference
  once and pops it from both dictionaries; the occupancy rule follows; then the comparison of
  \<^verbatim>\<open>preferencia_genero\<close> in the loop finds \<^verbatim>\<open>None == None\<close> and counts it a second
  time. The pair ends with 4 of 5 and 80 percent; counted once it would be 3 of 4.
\<close>

theorem gender_wildcard_counted_twice:
  "animals_rule (initial_state easygoing_house plain_student)
     = Inr (Some (initial_state easygoing_house plain_student)) \<and>
   total_filters (gender_rule (initial_state easygoing_house plain_student)) = 1 \<and>
   matched_filters (gender_rule (initial_state easygoing_house plain_student)) = 1 \<and>
   housing_filters (gender_rule (initial_state easygoing_house plain_student))
     preferencia_genero = None \<and>
   university_filters (gender_rule (initial_state easygoing_house plain_student))
     preferencia_genero = None \<and>
   occupancy_rule (gender_rule (initial_state easygoing_house plain_student))
     = Inr (occupancy_finish 1 (gender_rule (initial_state easygoing_house plain_student))) \<and>
   total_filters (compare_field preferencia_genero
     (occupancy_finish 1 (gender_rule (initial_state easygoing_house plain_student)))) = 3 \<and>
   matched_filters (compare_field preferencia_genero
     (occupancy_finish 1 (gender_rule (initial_state easygoing_house plain_student)))) = 3 \<and>
   total_filters (snd (scorer_body easygoing_house plain_student)) = 5 \<and>
   matched_filters (snd (scorer_body easygoing_house plain_student)) = 4 \<and>
   calculate_match_percentage easygoing_house plain_student = Inr 80"
  by (simp add: easygoing_house_def plain_student_def scorer_steps field_names labels
      sublist_Cons_right)

section \<open>The counters and the range of the score\<close>

lemma counted_initial: "counted (initial_state h u)"
  by (simp add: counted_def initial_state_def)

lemma counted_count_and_pop: "counted s \<Longrightarrow> counted (count_and_pop f s)"
  by (simp add: counted_def count_and_pop_def)

lemma counted_animals_rule: "counted s \<Longrightarrow> animals_rule s = Inr (Some s') \<Longrightarrow> counted s'"
  by (auto simp: animals_rule_def counted_count_and_pop split: sum.splits bool.splits)

lemma counted_gender_rule: "counted s \<Longrightarrow> counted (gender_rule s)"
  by (simp add: gender_rule_def counted_count_and_pop Let_def)

lemma occupancy_compare_le: "occupancy_compare s = Inr g \<Longrightarrow> g \<le> 1"
  by (auto simp: occupancy_compare_def split: sum.splits)

lemma counted_occupancy_finish: "counted s \<Longrightarrow> g \<le> 1 \<Longrightarrow> counted (occupancy_finish g s)"
  by (simp add: counted_def occupancy_finish_def)

lemma counted_occupancy_rule: "counted s \<Longrightarrow> occupancy_rule s = Inr s' \<Longrightarrow> counted s'"
  by (auto simp: occupancy_rule_def counted_occupancy_finish dest: occupancy_compare_le
      split: sum.splits pyexc.splits)

lemma counted_compare_field: "counted s \<Longrightarrow> counted (compare_field f s)"
  by (simp add: counted_def compare_field_def Let_def)

lemma counted_remaining_fields: "counted s \<Longrightarrow> counted (remaining_fields s)"
  by (simp add: remaining_fields_def other_fields_def counted_compare_field)

lemma counted_scorer_body: "counted (snd (scorer_body h u))"
  using counted_initial[of h u]
  by (auto simp: scorer_body_def Let_def counted_gender_rule counted_remaining_fields
      dest!: counted_animals_rule[rotated] counted_occupancy_rule[rotated]
      split: sum.splits option.splits)

lemma match_percentage_range:
  "counted s \<Longrightarrow> 0 \<le> match_percentage s \<and> match_percentage s \<le> 100"
  by (auto simp: match_percentage_def counted_def divide_le_eq)

lemma scorer_body_returns:
  "fst (scorer_body h u) = Returns p \<Longrightarrow>
   p = 0 \<or> p = match_percentage (snd (scorer_body h u))"
  by (auto simp: scorer_body_def Let_def split: sum.splits option.splits)

text \<open>
  Claim C6. For all dictionaries the scorer returns a number between 0 and 100, and in the
  state in which it ends, which is the one the percentage is computed from,
  \<^verbatim>\<open>matched_filters\<close> does not exceed \<^verbatim>\<open>total_filters\<close>.
\<close>

theorem score_in_range:
  "\<exists>p. calculate_match_percentage h u = Inr p \<and> 0 \<le> p \<and> p \<le> 100 \<and>
       matched_filters (snd (scorer_body h u)) \<le> total_filters (snd (scorer_body h u))"
proof -
  have c: "counted (snd (scorer_body h u))"
    by (rule counted_scorer_body)
  show ?thesis
    using c match_percentage_range[OF c] scorer_body_returns[of h u]
    by (auto simp: calculate_match_percentage_def counted_def split: ending.splits)
qed

section \<open>Failure of the occupancy conversion\<close>

lemma numero_count_and_pop:
  "f \<noteq> numero_maximo_pessoas \<Longrightarrow>
   housing_filters (count_and_pop f s) numero_maximo_pessoas
     = housing_filters s numero_maximo_pessoas \<and>
   university_filters (count_and_pop f s) numero_maximo_pessoas
     = university_filters s numero_maximo_pessoas"
  by (simp add: count_and_pop_def dict_pop_def)

lemma numero_animals_rule:
  assumes "animals_rule s = Inr (Some s')"
  shows "housing_filters s' numero_maximo_pessoas = housing_filters s numero_maximo_pessoas \<and>
         university_filters s' numero_maximo_pessoas
           = university_filters s numero_maximo_pessoas"
proof -
  have "s' = s \<or> s' = count_and_pop animais_estimacao s"
    using assms by (auto simp: animals_rule_def split: sum.splits bool.splits)
  moreover have "animais_estimacao \<noteq> numero_maximo_pessoas"
    by (simp add: animais_estimacao_def numero_maximo_pessoas_def)
  ultimately show ?thesis
    using numero_count_and_pop by auto
qed

lemma numero_gender_rule:
  "housing_filters (gender_rule s) numero_maximo_pessoas
     = housing_filters s numero_maximo_pessoas \<and>
   university_filters (gender_rule s) numero_maximo_pessoas
     = university_filters s numero_maximo_pessoas"
proof -
  have "preferencia_genero \<noteq> numero_maximo_pessoas"
    by (simp add: preferencia_genero_def numero_maximo_pessoas_def)
  then show ?thesis
    using numero_count_and_pop by (simp add: gender_rule_def Let_def)
qed

lemma occupancy_args:
  assumes "animals_rule (initial_state h u) = Inr (Some s1)"
  shows "dict_get (housing_filters (gender_rule s1)) numero_maximo_pessoas d
           = dict_get h numero_maximo_pessoas d"
    and "dict_get (university_filters (gender_rule s1)) numero_maximo_pessoas d
           = dict_get u numero_maximo_pessoas d"
  using numero_gender_rule[of s1] numero_animals_rule[OF assms]
  by (simp_all add: dict_get_def initial_state_def)

text \<open>
  Claim C5. A stored housing user without \<^verbatim>\<open>numero_maximo_pessoas\<close> has the value
  \<^verbatim>\<open>None\<close> for it. \<^verbatim>\<open>int(None)\<close> raises \<^verbatim>\<open>TypeError\<close>, the handler of the occupancy
  rule takes \<^verbatim>\<open>ValueError\<close> only, and the scorer leaves through the outer handler with 0.0:
  \<^verbatim>\<open>total_filters\<close> was not incremented and no remaining field was scored, although all
  the other fields of the pair agree.
\<close>

theorem occupancy_none_is_fatal:
  "unlimited_house numero_maximo_pessoas = Some PNone \<and>
   py_int (occupants unlimited_house) = Inl TypeError \<and>
   fst (scorer_body unlimited_house plain_student) = Raises TypeError \<and>
   total_filters (snd (scorer_body unlimited_house plain_student)) = 0 \<and>
   calculate_match_percentage unlimited_house plain_student = Inr 0"
  by (simp add: unlimited_house_def plain_student_def scorer_steps field_names labels
      sublist_Cons_right)

text \<open>
  The conversion failures that the handler of the occupancy rule does take: when the pet
  rule lets the scoring go on and the conversion raises \<^verbatim>\<open>ValueError\<close> (on the housing
  side, or on the university side after the housing side has converted), the rule adds one to
  \<^verbatim>\<open>total_filters\<close> and nothing to \<^verbatim>\<open>matched_filters\<close>, and the remaining fields are
  scored.
\<close>

lemma occupancy_value_error_not_fatal:
  assumes "animals_rule (initial_state h u) = Inr (Some s1)"
    and "py_int (occupants h) = Inl ValueError \<or>
         (\<exists>n. py_int (occupants h) = Inr n \<and> py_int (occupants u) = Inl ValueError)"
  shows "occupancy_rule (gender_rule s1) = Inr (occupancy_finish 0 (gender_rule s1)) \<and>
         total_filters (occupancy_finish 0 (gender_rule s1))
           = total_filters (gender_rule s1) + 1 \<and>
         matched_filters (occupancy_finish 0 (gender_rule s1))
           = matched_filters (gender_rule s1) \<and>
         scorer_body h u =
           (Returns (match_percentage (remaining_fields (occupancy_finish 0 (gender_rule s1)))),
            remaining_fields (occupancy_finish 0 (gender_rule s1)))"
proof -
  have "occupancy_compare (gender_rule s1) = Inl ValueError"
    using assms(2) by (auto simp: occupancy_compare_def occupancy_args[OF assms(1)])
  then have "occupancy_rule (gender_rule s1) = Inr (occupancy_finish 0 (gender_rule s1))"
    by (simp add: occupancy_rule_def)
  then show ?thesis
    using assms(1) by (simp add: scorer_body_def occupancy_finish_def Let_def)
qed

lemma occupancy_value_error_example:
  "py_int (occupants unparsable_house) = Inl ValueError \<and>
   calculate_match_percentage unparsable_house plain_student = Inr 75 \<and>
   total_filters (snd (scorer_body unparsable_house plain_student)) = 4 \<and>
   matched_filters (snd (scorer_body unparsable_house plain_student)) = 3"
proof -
  have "int_literal 10 (ascii ''duas'') = None"
    by code_simp
  then show ?thesis
    by (simp add: unparsable_house_def plain_student_def scorer_steps field_names labels
        sublist_Cons_right)
qed

section \<open>Exchanging the two sides\<close>

lemma swap_initial: "swap_roles (initial_state h u) = initial_state u h"
  by (simp add: swap_roles_def initial_state_def)

lemma swap_count_and_pop: "swap_roles (count_and_pop f s) = count_and_pop f (swap_roles s)"
  by (simp add: swap_roles_def count_and_pop_def)

lemma swap_gender_rule: "gender_rule (swap_roles s) = swap_roles (gender_rule s)"
  by (auto simp: gender_rule_def swap_count_and_pop Let_def) (simp_all add: swap_roles_def)

lemma swap_compare_field: "compare_field f (swap_roles s) = swap_roles (compare_field f s)"
  by (simp add: compare_field_def swap_roles_def Let_def py_eq_sym)

lemma swap_remaining_fields: "remaining_fields (swap_roles s) = swap_roles (remaining_fields s)"
  by (simp add: remaining_fields_def other_fields_def swap_compare_field)

lemma swap_match_percentage: "match_percentage (swap_roles s) = match_percentage s"
  by (simp add: match_percentage_def swap_roles_def)

lemma swap_occupancy_finish:
  "occupancy_finish g (swap_roles s) = swap_roles (occupancy_finish g s)"
  by (simp add: occupancy_finish_def swap_roles_def)

lemma occupancy_compare_equal:
  assumes "py_int (dict_get (housing_filters s) numero_maximo_pessoas (PInt 0))
           = py_int (dict_get (university_filters s) numero_maximo_pessoas (PInt 0))"
  shows "occupancy_compare (swap_roles s) = occupancy_compare s"
  using assms
  by (simp add: occupancy_compare_def swap_roles_def cong: sum.case_cong)

lemma swap_occupancy_rule:
  assumes "py_int (dict_get (housing_filters s) numero_maximo_pessoas (PInt 0))
           = py_int (dict_get (university_filters s) numero_maximo_pessoas (PInt 0))"
  shows "occupancy_rule (swap_roles s) = map_sum id swap_roles (occupancy_rule s)"
  using occupancy_compare_equal[OF assms]
  by (auto simp: occupancy_rule_def swap_occupancy_finish split: sum.splits pyexc.splits)

lemma swap_animals_rule:
  assumes "\<And>x y l. \<lbrakk>dict_get (housing_filters s) animais_estimacao (PList []) = PStr x;
                      dict_get (university_filters s) animais_estimacao (PList []) = PStr y;
                      l \<in> {Alergia, Gosto_muito, Nao_tenho_mas_amo}\<rbrakk>
                    \<Longrightarrow> sublist l (x @ y) = sublist l (y @ x)"
  shows "animals_rule (swap_roles s) = map_sum id (map_option swap_roles) (animals_rule s)"
proof -
  define a where "a = dict_get (housing_filters s) animais_estimacao (PList [])"
  define b where "b = dict_get (university_filters s) animais_estimacao (PList [])"
  have sel: "housing_filters (swap_roles s) = university_filters s"
    "university_filters (swap_roles s) = housing_filters s"
    by (simp_all add: swap_roles_def)
  have pop: "count_and_pop animais_estimacao (swap_roles s)
             = swap_roles (count_and_pop animais_estimacao s)"
    by (simp add: swap_count_and_pop)
  have str: "sublist l (x @ y) = sublist l (y @ x)"
    if "a = PStr x" "b = PStr y" "l \<in> {Alergia, Gosto_muito, Nao_tenho_mas_amo}" for x y l
    using assms[of x y l] that by (simp add: a_def b_def)
  have lab: "(case py_add b a of Inl e \<Rightarrow> Inl e | Inr x \<Rightarrow> py_in l x)
           = (case py_add a b of Inl e \<Rightarrow> Inl e | Inr x \<Rightarrow> py_in l x)"
    if "l \<in> {Alergia, Gosto_muito, Nao_tenho_mas_amo}" for l
    using str[OF _ _ that] by (cases a; cases b) (auto simp: list_ex_iff)
  have raises: "(\<exists>e. py_add b a = Inl e) = (\<exists>e. py_add a b = Inl e)"
    by (cases a; cases b) auto
  show ?thesis
    unfolding animals_rule_def sel pop a_def[symmetric] b_def[symmetric]
    using lab[of Alergia] lab[of Gosto_muito] lab[of Nao_tenho_mas_amo] raises
    by (cases "py_add a b"; cases "py_add b a") (auto split: sum.splits bool.splits)
qed

text \<open>
  Claim C9. The two users have the same occupancy and agree in every field but the pet
  value. \<^verbatim>\<open>'Gatos, Al' + 'ergia nenhuma'\<close> contains \<^verbatim>\<open>'Alergia'\<close> across the junction,
  although neither value contains it, and the pair scores 0; in the other order the
  concatenation does not contain it and the pair scores 100.
\<close>

theorem score_not_symmetric:
  "house_ending_Al numero_maximo_pessoas = student_beginning_ergia numero_maximo_pessoas \<and>
   \<not> sublist Alergia (ascii ''Gatos, Al'') \<and> \<not> sublist Alergia (ascii ''ergia nenhuma'') \<and>
   calculate_match_percentage house_ending_Al student_beginning_ergia = Inr 0 \<and>
   calculate_match_percentage student_beginning_ergia house_ending_Al = Inr 100"
  by (simp add: house_ending_Al_def student_beginning_ergia_def scorer_steps field_names labels
      sublist_Cons_right)

text \<open>
  The junction is the only source of asymmetry: when the two occupancy values convert alike
  and, for text pet values, each of the three labels occurs in the one concatenation exactly
  when it occurs in the other, the score is the same in both orders.
\<close>

lemma score_symmetric_without_junction:
  assumes occ: "py_int (occupants h) = py_int (occupants u)"
    and lab: "\<And>x y l. \<lbrakk>h animais_estimacao = Some (PStr x);
                         u animais_estimacao = Some (PStr y);
                         l \<in> {Alergia, Gosto_muito, Nao_tenho_mas_amo}\<rbrakk>
                       \<Longrightarrow> sublist l (x @ y) = sublist l (y @ x)"
  shows "calculate_match_percentage h u = calculate_match_percentage u h"
proof -
  let ?s0 = "initial_state h u"
  have an: "animals_rule (initial_state u h)
            = map_sum id (map_option swap_roles) (animals_rule ?s0)"
  proof -
    have "animals_rule (swap_roles ?s0) = map_sum id (map_option swap_roles) (animals_rule ?s0)"
    proof (rule swap_animals_rule)
      fix x y l
      assume "dict_get (housing_filters ?s0) animais_estimacao (PList []) = PStr x"
        and "dict_get (university_filters ?s0) animais_estimacao (PList []) = PStr y"
        and l: "l \<in> {Alergia, Gosto_muito, Nao_tenho_mas_amo}"
      then have "h animais_estimacao = Some (PStr x)" "u animais_estimacao = Some (PStr y)"
        by (auto simp: initial_state_def dict_get_def split: option.splits)
      then show "sublist l (x @ y) = sublist l (y @ x)"
        using lab l by blast
    qed
    then show ?thesis
      by (simp add: swap_initial)
  qed
  have fin: "fst (scorer_body u h) = fst (scorer_body h u)"
  proof (cases "animals_rule ?s0")
    case (Inl e)
    then show ?thesis
      using an by (simp add: scorer_body_def)
  next
    case (Inr r)
    show ?thesis
    proof (cases r)
      case None
      then show ?thesis
        using an Inr by (simp add: scorer_body_def)
    next
      case (Some s1)
      let ?s2 = "gender_rule s1"
      have "py_int (dict_get (housing_filters ?s2) numero_maximo_pessoas (PInt 0))
            = py_int (dict_get (university_filters ?s2) numero_maximo_pessoas (PInt 0))"
        using occupancy_args[of h u s1 "PInt 0"] Inr Some occ by simp
      then have oc: "occupancy_rule (swap_roles ?s2) = map_sum id swap_roles (occupancy_rule ?s2)"
        by (rule swap_occupancy_rule)
      have "animals_rule (initial_state u h) = Inr (Some (swap_roles s1))"
        using an Inr Some by simp
      then show ?thesis
        using Inr Some oc
        by (cases "occupancy_rule ?s2")
           (simp_all add: scorer_body_def Let_def swap_gender_rule swap_remaining_fields
              swap_match_percentage)
    qed
  qed
  then show ?thesis
    by (simp add: calculate_match_percentage_def)
qed

section \<open>The normalizer without data\<close>


lemma dom_extract_field: "dom (extract_field user field filters) = insert field (dom filters)"
  by (simp add: extract_field_def)

lemma dom_fold_extract_field:
  "dom (fold (extract_field user) names filters) = set names \<union> dom filters"
  by (induction names arbitrary: filters) (auto simp: dom_extract_field)

lemma get_filters_found_keys:
  "UUID_hex uuid_str = Some uuid_obj \<Longrightarrow> find_one coll uuid_obj = Gives (Some user) \<Longrightarrow>
   \<exists>filters. get_filters coll (PStr uuid_str) = Inr filters \<and>
             dom filters = set fields_to_process"
  by (simp add: get_filters_def dom_fold_extract_field)

lemma get_filters_text_returns: "\<exists>filters. get_filters coll (PStr uuid_str) = Inr filters"
  by (auto simp: get_filters_def split: option.splits driver.splits)

lemma get_filters_raises:
  "UUID v = Inl e \<Longrightarrow> e \<noteq> ValueError \<Longrightarrow> get_filters coll v = Inl e"
  by (cases e) (simp_all add: get_filters_def)







section \<open>The ranking\<close>

lemma calculate_match_percentage_returns: "\<exists>p. calculate_match_percentage h u = Inr p"
  by (simp add: calculate_match_percentage_def split: ending.splits)

lemma get_all_houses_returns: "\<exists>houses. get_all_houses coll = Inr houses"
  by (simp add: get_all_houses_def split: driver.splits sum.splits)

lemma score_houses_text:
  "\<exists>rs. score_houses db (PStr university_uuid) t houses = Inr rs \<and> map uid rs = houses \<and>
     list_all2
       (\<lambda>r i. \<exists>housing university.
          get_filters (db (t + 2 * i)) (PStr (uid r)) = Inr housing \<and>
          get_filters (db (t + 2 * i + 1)) (PStr university_uuid) = Inr university \<and>
          calculate_match_percentage housing university = Inr (probability r))
       rs [0..<length houses]"
proof (induction houses arbitrary: t)
  case Nil
  show ?case by simp
next
  case (Cons house_uuid houses)
  obtain housing where h: "get_filters (db t) (PStr house_uuid) = Inr housing"
    using get_filters_text_returns by blast
  obtain university where u: "get_filters (db (t + 1)) (PStr university_uuid) = Inr university"
    using get_filters_text_returns by blast
  obtain score where p: "calculate_match_percentage housing university = Inr score"
    using calculate_match_percentage_returns by blast
  obtain rs where rs: "score_houses db (PStr university_uuid) (t + 2) houses = Inr rs"
    "map uid rs = houses"
    "list_all2
       (\<lambda>r i. \<exists>housing university.
          get_filters (db (t + 2 + 2 * i)) (PStr (uid r)) = Inr housing \<and>
          get_filters (db (t + 2 + 2 * i + 1)) (PStr university_uuid) = Inr university \<and>
          calculate_match_percentage housing university = Inr (probability r))
       rs [0..<length houses]"
    using Cons.IH[of "t + 2"] by blast
  let ?r = "\<lparr>uid = house_uuid, probability = score\<rparr>"
  have upt: "[0..<length (house_uuid # houses)] = 0 # map Suc [0..<length houses]"
    by (simp add: upt_conv_Cons map_Suc_upt del: upt_Suc)
  have rest: "list_all2
       (\<lambda>r i. \<exists>housing university.
          get_filters (db (t + 2 * i)) (PStr (uid r)) = Inr housing \<and>
          get_filters (db (t + 2 * i + 1)) (PStr university_uuid) = Inr university \<and>
          calculate_match_percentage housing university = Inr (probability r))
       rs (map Suc [0..<length houses])"
    using rs(3) by (simp add: list_all2_map2 add.commute add.left_commute)
  have first: "\<exists>housing university.
          get_filters (db (t + 2 * 0)) (PStr (uid ?r)) = Inr housing \<and>
          get_filters (db (t + 2 * 0 + 1)) (PStr university_uuid) = Inr university \<and>
          calculate_match_percentage housing university = Inr (probability ?r)"
    using h u p by simp
  have "score_houses db (PStr university_uuid) t (house_uuid # houses) = Inr (?r # rs)"
    using h u p rs(1) by simp
  moreover have "map uid (?r # rs) = house_uuid # houses"
    using rs(2) by simp
  ultimately show ?case
    unfolding upt using first rest by (intro exI[of _ "?r # rs"]) simp
qed

lemma example_houses:
  "get_all_houses example_collection
     = Inr [ascii ''00000000-0000-0000-0000-000000000001'',
            ascii ''00000000-0000-0000-0000-000000000002'']"
  by code_simp

lemma example_ranking:
  "get_all_probas (\<lambda>t. example_collection) (PStr student_uuid)
     = Inr [\<lparr>uid = ascii ''00000000-0000-0000-0000-000000000001'', probability = 75\<rparr>,
            \<lparr>uid = ascii ''00000000-0000-0000-0000-000000000002'', probability = 100\<rparr>]"
  by code_simp

text \<open>
  Claim C7. For every identifier that is text, \<^verbatim>\<open>get_all_probas\<close> returns one entry for
  each identifier that \<^verbatim>\<open>get_all_houses\<close> returned, in the same order, whatever the
  collection answers to the later lookups; entry \<open>i\<close> carries the score of the filters
  fetched for house \<open>i\<close> and for the student. The list is not sorted by score: in the
  example collection the scores come out as 75 before 100.
\<close>

theorem get_all_probas_directory_order:
  "(\<exists>houses rs.
      get_all_houses (db 0) = Inr houses \<and>
      get_all_probas db (PStr university_uuid) = Inr rs \<and>
      map uid rs = houses \<and>
      list_all2
        (\<lambda>r i. \<exists>housing university.
           get_filters (db (2 * i + 1)) (PStr (uid r)) = Inr housing \<and>
           get_filters (db (2 * i + 2)) (PStr university_uuid) = Inr university \<and>
           calculate_match_percentage housing university = Inr (probability r))
        rs [0..<length houses]) \<and>
   (\<exists>rs. get_all_probas (\<lambda>t. example_collection) (PStr student_uuid) = Inr rs \<and>
      map probability rs = [75, 100] \<and>
      \<not> sorted_wrt (\<lambda>a b. probability b \<le> probability a) rs)"
proof -
  obtain houses where hs: "get_all_houses (db 0) = Inr houses"
    using get_all_houses_returns by blast
  obtain rs where rs: "score_houses db (PStr university_uuid) 1 houses = Inr rs"
    "map uid rs = houses"
    "list_all2
       (\<lambda>r i. \<exists>housing university.
          get_filters (db (1 + 2 * i)) (PStr (uid r)) = Inr housing \<and>
          get_filters (db (1 + 2 * i + 1)) (PStr university_uuid) = Inr university \<and>
          calculate_match_percentage housing university = Inr (probability r))
       rs [0..<length houses]"
    using score_houses_text[of db university_uuid 1 houses] by blast
  have "get_all_probas db (PStr university_uuid) = Inr rs"
    using hs rs(1) by (simp add: get_all_probas_def ranking_body_def)
  moreover have "list_all2
        (\<lambda>r i. \<exists>housing university.
           get_filters (db (2 * i + 1)) (PStr (uid r)) = Inr housing \<and>
           get_filters (db (2 * i + 2)) (PStr university_uuid) = Inr university \<and>
           calculate_match_percentage housing university = Inr (probability r))
        rs [0..<length houses]"
    using rs(3) by (simp add: add.commute)
  ultimately have general: "\<exists>houses rs.
      get_all_houses (db 0) = Inr houses \<and>
      get_all_probas db (PStr university_uuid) = Inr rs \<and>
      map uid rs = houses \<and>
      list_all2
        (\<lambda>r i. \<exists>housing university.
           get_filters (db (2 * i + 1)) (PStr (uid r)) = Inr housing \<and>
           get_filters (db (2 * i + 2)) (PStr university_uuid) = Inr university \<and>
           calculate_match_percentage housing university = Inr (probability r))
        rs [0..<length houses]"
    using hs rs(2) by blast
  have example: "\<exists>rs. get_all_probas (\<lambda>t. example_collection) (PStr student_uuid) = Inr rs \<and>
      map probability rs = [75, 100] \<and>
      \<not> sorted_wrt (\<lambda>a b. probability b \<le> probability a) rs"
    by (simp add: example_ranking)
  show ?thesis
    using general example by blast
qed

section \<open>Failures stay inside\<close>

lemma collect_uuids_raises: "(\<exists>e. collect_uuids c uuid_list = Inl e) \<longleftrightarrow> breaks c"
proof (induction c arbitrary: uuid_list)
  case (Document binary_uuid rest)
  have "\<exists>rest_list. collect_uuids (Document binary_uuid rest) uuid_list
          = collect_uuids rest rest_list"
  proof (cases binary_uuid)
    case None
    then show ?thesis by auto
  next
    case (Some b)
    have "UUID_bytes b = Inl ValueError \<or> (\<exists>n. UUID_bytes b = Inr n)"
      by (simp add: UUID_bytes_def)
    then show ?thesis
      using Some by auto
  qed
  then obtain rest_list where
    "collect_uuids (Document binary_uuid rest) uuid_list = collect_uuids rest rest_list"
    by blast
  then have "(\<exists>e. collect_uuids (Document binary_uuid rest) uuid_list = Inl e)
             \<longleftrightarrow> (\<exists>e. collect_uuids rest rest_list = Inl e)"
    by (simp only:)
  then show ?case
    using Document.IH[of rest_list] by (simp only: breaks.simps)
qed simp_all

lemma directory_failure_empty:
  "find_moradia coll = Fails \<or> (find_moradia coll = Gives c \<and> breaks c) \<Longrightarrow>
   get_all_houses coll = Inr []"
  using collect_uuids_raises[of c "[]"] by (auto simp: get_all_houses_def)

lemma ranking_body_raises:
  assumes "get_all_houses (db 0) = Inr (house_uuid # houses)"
    and "UUID v = Inl e" and "e \<noteq> ValueError"
  shows "ranking_body db v = Inl e"
proof -
  obtain housing where "get_filters (db 1) (PStr house_uuid) = Inr housing"
    using get_filters_text_returns by blast
  moreover have "get_filters (db (1 + 1)) v = Inl e"
    using assms(2,3) by (rule get_filters_raises)
  ultimately show ?thesis
    using assms(1) by (simp add: ranking_body_def)
qed

lemma animals_rule_raises:
  "(\<exists>e. animals_rule s = Inl e) \<longleftrightarrow>
     \<not> both_text_or_lists (pets (housing_filters s)) (pets (university_filters s))"
  "animals_rule s = Inl e \<Longrightarrow> e = TypeError"
  by (cases "pets (housing_filters s)"; cases "pets (university_filters s)";
      auto simp: animals_rule_def split: bool.splits)+

lemma animals_rule_goes_on:
  "(\<exists>s1. animals_rule s = Inr (Some s1)) \<longleftrightarrow>
     (\<exists>x. py_add (pets (housing_filters s)) (pets (university_filters s)) = Inr x \<and>
          py_in Alergia x = Inr False)"
  by (cases "pets (housing_filters s)"; cases "pets (university_filters s)";
      auto simp: animals_rule_def split: bool.splits)

lemma occupancy_rule_raises:
  "(\<exists>e. occupancy_rule s = Inl e) \<longleftrightarrow>
     py_int (occupants (housing_filters s)) = Inl TypeError \<or>
     (\<exists>n. py_int (occupants (housing_filters s)) = Inr n \<and>
          py_int (occupants (university_filters s)) = Inl TypeError)"
  "occupancy_rule s = Inl e \<Longrightarrow> e = TypeError"
  using py_int_raises[of "occupants (housing_filters s)"]
    py_int_raises[of "occupants (university_filters s)"]
  by (auto simp: occupancy_rule_def occupancy_compare_def split: sum.splits pyexc.splits)

lemma scorer_body_raises:
  "(\<exists>e. fst (scorer_body h u) = Raises e) \<longleftrightarrow>
     \<not> both_text_or_lists (pets h) (pets u) \<or>
     ((\<exists>x. py_add (pets h) (pets u) = Inr x \<and> py_in Alergia x = Inr False) \<and>
      (py_int (occupants h) = Inl TypeError \<or>
       (\<exists>n. py_int (occupants h) = Inr n \<and> py_int (occupants u) = Inl TypeError)))"
  (is "?raises \<longleftrightarrow> ?pets \<or> ?goes_on \<and> ?occupancy")
proof -
  let ?s0 = "initial_state h u"
  have sel: "housing_filters ?s0 = h" "university_filters ?s0 = u"
    by (simp_all add: initial_state_def)
  have a: "(\<exists>e. animals_rule ?s0 = Inl e) \<longleftrightarrow> ?pets"
    using animals_rule_raises(1)[of ?s0] by (simp only: sel)
  have g: "(\<exists>s1. animals_rule ?s0 = Inr (Some s1)) \<longleftrightarrow> ?goes_on"
    using animals_rule_goes_on[of ?s0] by (simp only: sel)
  show ?thesis
  proof (cases "animals_rule ?s0")
    case (Inl e)
    then have "?raises" "?pets"
      using a by (auto simp: scorer_body_def)
    then show ?thesis by simp
  next
    case (Inr r)
    then have np: "\<not> ?pets"
      using a by auto
    show ?thesis
    proof (cases r)
      case None
      then have "\<not> ?raises" "\<not> ?goes_on"
        using Inr g by (auto simp: scorer_body_def)
      then show ?thesis
        using np by simp
    next
      case (Some s1)
      have an: "animals_rule ?s0 = Inr (Some s1)"
        using Inr Some by simp
      have "?goes_on"
        using g an by blast
      moreover have "?raises \<longleftrightarrow> (\<exists>e. occupancy_rule (gender_rule s1) = Inl e)"
        using an by (auto simp: scorer_body_def Let_def split: sum.splits)
      moreover have "(\<exists>e. occupancy_rule (gender_rule s1) = Inl e) \<longleftrightarrow> ?occupancy"
        using occupancy_rule_raises(1)[of "gender_rule s1"]
        by (simp only: occupancy_args[OF an])
      ultimately show ?thesis
        using np by simp
    qed
  qed
qed

lemma scorer_body_raises_TypeError: "fst (scorer_body h u) = Raises e \<Longrightarrow> e = TypeError"
  using animals_rule_raises(2) occupancy_rule_raises(2)
  by (auto simp: scorer_body_def Let_def split: sum.splits option.splits)

text \<open>
  Claim C8. A call of \<^verbatim>\<open>get_all_probas\<close> returns for every collection and every value
  given as identifier, and a call of \<^verbatim>\<open>calculate_match_percentage\<close> returns for every
  pair of dictionaries: neither raises. When the lookup of the houses fails, because the
  query raises or because the cursor raises while it is read, \<^verbatim>\<open>get_all_houses\<close> and
  \<^verbatim>\<open>get_all_probas\<close> return the empty list. When there is a house and the identifier is a
  value that \<^verbatim>\<open>uuid.UUID\<close> refuses with another exception than \<^verbatim>\<open>ValueError\<close>, the
  exception leaves \<^verbatim>\<open>get_filters\<close> and the body of \<^verbatim>\<open>get_all_probas\<close>, whose handler
  returns the empty list. The body of the scorer raises exactly when the pet values are not
  two texts or two lists, or when the pet rule lets the scoring go on and \<^verbatim>\<open>int\<close> raises
  \<^verbatim>\<open>TypeError\<close> on an occupancy value; the exception is then a \<^verbatim>\<open>TypeError\<close> and the
  scorer returns 0.0.
\<close>

theorem failures_stay_inside:
  "(\<exists>rs. get_all_probas db v = Inr rs) \<and>
   (\<exists>p. calculate_match_percentage h u = Inr p) \<and>
   (find_moradia (db 0) = Fails \<or> (find_moradia (db 0) = Gives c \<and> breaks c) \<longrightarrow>
      get_all_houses (db 0) = Inr [] \<and> get_all_probas db v = Inr []) \<and>
   (get_all_houses (db 0) = Inr (house_uuid # houses) \<and> UUID v = Inl e \<and> e \<noteq> ValueError \<longrightarrow>
      ranking_body db v = Inl e \<and> get_all_probas db v = Inr []) \<and>
   ((\<exists>e. fst (scorer_body h u) = Raises e) \<longleftrightarrow>
      \<not> both_text_or_lists (pets h) (pets u) \<or>
      ((\<exists>x. py_add (pets h) (pets u) = Inr x \<and> py_in Alergia x = Inr False) \<and>
       (py_int (occupants h) = Inl TypeError \<or>
        (\<exists>n. py_int (occupants h) = Inr n \<and> py_int (occupants u) = Inl TypeError)))) \<and>
   ((\<exists>e. fst (scorer_body h u) = Raises e) \<longrightarrow>
      fst (scorer_body h u) = Raises TypeError \<and> calculate_match_percentage h u = Inr 0)"
proof -
  have returns: "\<exists>rs. get_all_probas db v = Inr rs"
    by (simp add: get_all_probas_def split: sum.splits)
  have directory: "get_all_houses (db 0) = Inr [] \<and> get_all_probas db v = Inr []"
    if "find_moradia (db 0) = Fails \<or> (find_moradia (db 0) = Gives c \<and> breaks c)"
    using directory_failure_empty[OF that]
    by (simp add: get_all_probas_def ranking_body_def)
  have other_exception: "ranking_body db v = Inl e \<and> get_all_probas db v = Inr []"
    if "get_all_houses (db 0) = Inr (house_uuid # houses) \<and> UUID v = Inl e \<and> e \<noteq> ValueError"
    using ranking_body_raises[of db house_uuid houses v e] that
    by (simp add: get_all_probas_def)
  have scorer: "fst (scorer_body h u) = Raises TypeError \<and> calculate_match_percentage h u = Inr 0"
    if "\<exists>e. fst (scorer_body h u) = Raises e"
    using that scorer_body_raises_TypeError[of h u]
    by (auto simp: calculate_match_percentage_def)
  show ?thesis
    using returns calculate_match_percentage_returns[of h u] directory other_exception
      scorer_body_raises[of h u] scorer
    by blast
qed

theorem failures_stay_inside_witness:
  "find_moradia broken_collection = Gives broken_cursor \<and> breaks broken_cursor \<and>
   get_all_houses broken_collection = Inr [] \<and>
   get_all_probas (\<lambda>t. broken_collection) (PStr student_uuid) = Inr [] \<and>
   get_all_houses example_collection
     = Inr [ascii ''00000000-0000-0000-0000-000000000001'',
            ascii ''00000000-0000-0000-0000-000000000002''] \<and>
   UUID (PInt 255) = Inl AttributeError \<and>
   ranking_body (\<lambda>t. example_collection) (PInt 255) = Inl AttributeError \<and>
   get_all_probas (\<lambda>t. example_collection) (PInt 255) = Inr [] \<and>
   pets Map.empty = PList [] \<and> pets plain_student = PStr (ascii ''Gatos'') \<and>
   fst (scorer_body Map.empty plain_student) = Raises TypeError \<and>
   calculate_match_percentage Map.empty plain_student = Inr 0"
proof -
  have a: "find_moradia broken_collection = Gives broken_cursor" "breaks broken_cursor"
    by (simp_all add: broken_collection_def broken_cursor_def)
  have b: "UUID (PInt 255) = Inl AttributeError" "AttributeError \<noteq> ValueError"
    by simp_all
  have c: "pets Map.empty = PList []" "pets plain_student = PStr (ascii ''Gatos'')"
    by (simp_all add: dict_get_def plain_student_def field_names)
  have d: "\<not> both_text_or_lists (pets Map.empty) (pets plain_student)"
    by (simp add: c)
  show ?thesis
    using a b c d example_houses
      failures_stay_inside[of "\<lambda>t. broken_collection" "PStr student_uuid" Map.empty
        plain_student broken_cursor]
      failures_stay_inside[of "\<lambda>t. example_collection" "PInt 255" Map.empty plain_student
        _ "ascii ''00000000-0000-0000-0000-000000000001''"
        "[ascii ''00000000-0000-0000-0000-000000000002'']" AttributeError]
    by simp
qed

end
